theory Spec2Isabelle
  imports Main "HOL-Library.Word"
begin

unbundle bit_operations_syntax

section \<open>Data model\<close>

text \<open>
  Go byte slices are lists of 8-bit words; a Go \<open>string\<close> is a byte sequence as well and is
  modelled by \<open>string\<close> (a list of 8-bit characters). A nil slice and an empty slice are both
  the empty list: the code only ever takes their length.
\<close>

type_synonym byte = "8 word"
type_synonym bytes = "byte list"

text \<open>\<open>[]byte(s)\<close>: the bytes of a Go string.\<close>

definition bytes_of :: "string \<Rightarrow> bytes" where
  "bytes_of s = map (\<lambda>c. of_nat (of_char c)) s"

text \<open>
  The errors the code builds. \<open>Web3Error{code, msg}\<close> is the user-facing error with an HTTP
  status; \<open>PlainError msg\<close> is every other Go error value (\<open>errors.New\<close>, or an error handed
  back by a library), kept by its message.
\<close>

datatype go_error = Web3Error int string | PlainError string

text \<open>A function that may panic instead of returning.\<close>

datatype 'a outcome = Returns 'a | Panics string

datatype ResolveMode = ResolveModeAuto | ResolveModeManual | ResolveModeResourceRequests

text \<open>\<open>ethereum.CallMsg\<close>, with the fields the code fills in. Addresses are 20 bytes.\<close>

record CallMsg =
  From :: bytes
  To :: bytes
  Gas :: nat
  GasPrice :: "int option"
  GasFeeCap :: "int option"
  GasTipCap :: "int option"
  Data :: bytes
  Value :: "int option"

text \<open>
  The configuration. The two source files disagree on the type of a chain identifier
  (\<open>int\<close> in the client, \<open>string\<close> in the name-service file) and the declaration of
  \<open>Config\<close> is in neither, so the identifier type is a parameter.
\<close>

record NameServiceInfo =
  NSType :: string
  NSAddr :: string

record ChainConfig =
  RPC :: string
  NSConfig :: "string \<rightharpoonup> NameServiceInfo"

record 'cid Config =
  ChainConfigs :: "'cid \<rightharpoonup> ChainConfig"
  Name2Chain :: "string \<rightharpoonup> 'cid"

text \<open>Indexing a Go map with a missing key yields the zero value of the element type.\<close>

definition chainConfigAt :: "'cid Config \<Rightarrow> 'cid \<Rightarrow> ChainConfig" where
  "chainConfigAt cfg k =
     (case ChainConfigs cfg k of
        None \<Rightarrow> \<lparr>RPC = [], NSConfig = Map.empty\<rparr>
      | Some c \<Rightarrow> c)"

text \<open>
  The RPC transport (\<open>ethclient\<close>) is outside the repository: dialing an endpoint gives a
  client or an error message, and a contract call gives the returned bytes together with an
  optional error message, as the Go pair \<open>([]byte, error)\<close> does.
\<close>

record 'c rpc =
  Dial :: "string \<Rightarrow> string + 'c"
  CallContract :: "'c \<Rightarrow> CallMsg \<Rightarrow> bytes \<times> string option"

text \<open>What a function did on the transport, in order.\<close>

datatype event = Dialed string | Called CallMsg | Closed

text \<open>The parsed URL. \<open>'ty\<close> stands for \<open>abi.Type\<close>, \<open>'v\<close> for an argument value.\<close>

record ('ty, 'v) Web3URL =
  Url :: string
  HostDomainNameResolver :: string
  HostDomainNameResolverChainId :: int
  ContractAddress :: bytes
  ChainId :: int
  ResolveMode :: ResolveMode
  ContractCallMode :: string
  Calldata :: bytes
  MethodName :: string
  MethodArgs :: "'ty list"
  MethodArgValues :: "'v list"
  ContractReturnProcessing :: string
  DecodedABIEncodedBytesMimeType :: string
  JsonEncodedValueTypes :: "'ty list"

section \<open>Hexadecimal encoding\<close>

text \<open>
  \<open>common.Bytes2Hex\<close> is \<open>hex.EncodeToString\<close>: two lower-case digits per byte, the high
  nibble first.
\<close>

definition hextable :: string where
  "hextable = ''0123456789abcdef''"

fun Bytes2Hex :: "bytes \<Rightarrow> string" where
  "Bytes2Hex [] = []"
| "Bytes2Hex (v # bs) =
     hextable ! unat (drop_bit 4 v) # hextable ! unat (v AND 0x0f) # Bytes2Hex bs"

text \<open>\<open>common.RightPadBytes\<close>: pad with zero bytes on the right up to length \<open>l\<close>.\<close>

definition RightPadBytes :: "bytes \<Rightarrow> nat \<Rightarrow> bytes" where
  "RightPadBytes bs l = (if l \<le> length bs then bs else bs @ replicate (l - length bs) 0)"

section \<open>Resolve-mode probe\<close>

definition checkResolveMode ::
  "(int \<Rightarrow> bytes \<Rightarrow> string list \<Rightarrow> go_error + CallMsg) \<Rightarrow> 'c rpc \<Rightarrow> int Config
     \<Rightarrow> ('ty, 'v) Web3URL \<Rightarrow> ResolveMode outcome" where
  "checkResolveMode parseArguments eth cfg web3Url =
     (case parseArguments 0 (ContractAddress web3Url) [''resolveMode''] of
        Inl err \<Rightarrow> Panics ''parseArguments''
      | Inr msg \<Rightarrow>
          (case Dial eth (RPC (chainConfigAt cfg (ChainId web3Url))) of
             Inl _ \<Rightarrow> Panics ''nil pointer dereference''
           | Inr ethClient \<Rightarrow>
               (case CallContract eth ethClient msg of
                  (bs, Some e) \<Rightarrow> Returns ResolveModeAuto
                | (bs, None) \<Rightarrow>
                    if length bs = 32 then
                      if Bytes2Hex bs = ''6d616e75616c0000000000000000000000000000000000000000000000000000''
                      then Returns ResolveModeManual
                      else if Bytes2Hex bs = ''3532313900000000000000000000000000000000000000000000000000000000''
                      then Returns ResolveModeResourceRequests
                      else Returns ResolveModeAuto
                    else Returns ResolveModeAuto)))"

section \<open>Library capabilities\<close>

text \<open>
  A Go \<open>interface{}\<close> value as the code inspects it: the type assertions \<open>.([]byte)\<close> and
  \<open>.(string)\<close> succeed on the first two shapes and panic on every other.
\<close>

datatype 'x val = VBytes bytes | VString string | VOther 'x

text \<open>
  The ABI codec, the hash and the JSON encoder are libraries outside the repository; they are
  parameters of the model. A Go function returning \<open>(T, error)\<close> is a pair whose second
  component is the optional error message. \<open>toJSON\<close> belongs to the repository but its
  source is not among the files at hand, so it is a parameter as well.
\<close>

record ('ty, 'x) codec =
  NewType :: "string \<Rightarrow> 'ty \<times> string option"
  TypeString :: "'ty \<Rightarrow> string"
  Pack :: "'ty list \<Rightarrow> 'x val list \<Rightarrow> bytes \<times> string option"
  UnpackValues :: "'ty list \<Rightarrow> bytes \<Rightarrow> 'x val list \<times> string option"
  Keccak256 :: "bytes \<Rightarrow> bytes"
  toJSON :: "'ty \<Rightarrow> 'x val \<Rightarrow> 'x val \<times> go_error option"
  MarshalStrings :: "string list \<Rightarrow> bytes \<times> string option"
  MarshalValues :: "'x val list \<Rightarrow> bytes \<times> string option"

text \<open>The \<open>net/http\<close> status constants the code uses.\<close>

definition StatusBadRequest :: int where "StatusBadRequest = 400"
definition StatusNotFound :: int where "StatusNotFound = 404"
definition StatusInternalServerError :: int where "StatusInternalServerError = 500"

definition ContractCallModeCalldata :: string where "ContractCallModeCalldata = ''calldata''"
definition ContractCallModeMethod :: string where "ContractCallModeMethod = ''method''"

definition ContractReturnProcessingABIEncodedBytes :: string where
  "ContractReturnProcessingABIEncodedBytes = ''decodeABIEncodedBytes''"
definition ContractReturnProcessingRawBytesJsonEncoded :: string where
  "ContractReturnProcessingRawBytesJsonEncoded = ''jsonEncodeRawBytes''"
definition ContractReturnProcessingJsonEncodeValues :: string where
  "ContractReturnProcessingJsonEncodeValues = ''jsonEncodeValues''"
definition ContractReturnProcessingErc5219 :: string where
  "ContractReturnProcessingErc5219 = ''erc5219''"

section \<open>Fetching the contract return\<close>

text \<open>
  The loop that appends the argument types to the method signature: \<open>n\<close> is
  \<open>len(web3Url.MethodArgs)\<close>, \<open>i\<close> the loop index, and a comma follows every type but the
  last (\<open>i < n - 1\<close> on Go integers).
\<close>

fun appendArgTypes :: "('ty \<Rightarrow> string) \<Rightarrow> nat \<Rightarrow> nat \<Rightarrow> 'ty list \<Rightarrow> string \<Rightarrow> string" where
  "appendArgTypes str n i [] methodSignature = methodSignature"
| "appendArgTypes str n i (methodArg # rest) methodSignature =
     appendArgTypes str n (Suc i) rest
       (methodSignature @ str methodArg @ (if int i < int n - 1 then '','' else []))"

definition methodSignatureOf :: "('ty, 'x) codec \<Rightarrow> ('ty, 'x val) Web3URL \<Rightarrow> string" where
  "methodSignatureOf lib web3Url =
     appendArgTypes (TypeString lib) (length (MethodArgs web3Url)) 0 (MethodArgs web3Url)
       (MethodName web3Url @ ''('') @ '')''"

definition emptyReturnMessage :: string where
  "emptyReturnMessage =
     ''The contract returned no data ('' @ [CHR 0x22] @ ''0x'' @ [CHR 0x22] @ '').'' @
     ''\<newline>\<newline>This could be due to any of the following:\<newline>'' @
     ''  - The contract does not have the requested function,\<newline>'' @
     ''  - The parameters passed to the contract function may be invalid, or\<newline>'' @
     ''  - The address is not a contract.''"

definition callMessageFor :: "('ty, 'v) Web3URL \<Rightarrow> bytes \<Rightarrow> CallMsg" where
  "callMessageFor web3Url calldata =
     \<lparr>From = replicate 20 0, To = ContractAddress web3Url, Gas = 0, GasPrice = None,
      GasFeeCap = None, GasTipCap = None, Data = calldata, Value = None\<rparr>"

text \<open>
  The result is the trace of what was done on the transport, then the Go results
  \<open>(contractReturn, err)\<close>. The variable \<open>err\<close> set in the last branch of the call-mode
  test is the named result; the \<open>:=\<close> of the dial assigns it again, since it stands in the
  same scope. The \<open>err\<close> of the packing lives in the scope of the first branch and is
  returned from there. The \<open>abi.Arguments\<close> built from the method's types, one argument per
  type and nothing but the type set, are the list of types itself. A failed dial returns
  before the \<open>defer\<close> of the close is reached.
\<close>

definition FetchContractReturn ::
  "('ty, 'x) codec \<Rightarrow> 'c rpc \<Rightarrow> int Config \<Rightarrow> ('ty, 'x val) Web3URL
     \<Rightarrow> event list \<times> bytes \<times> go_error option" where
  "FetchContractReturn lib eth cfg web3Url =
     (let prepared =
        (if ContractCallMode web3Url = ContractCallModeMethod then
           (case Pack lib (MethodArgs web3Url) (MethodArgValues web3Url) of
              (_, Some e) \<Rightarrow> Inl (PlainError e)
            | (calldataArgumentsPart, None) \<Rightarrow>
                Inr (take 4 (Keccak256 lib (bytes_of (methodSignatureOf lib web3Url)))
                       @ calldataArgumentsPart,
                     None))
         else if ContractCallMode web3Url = ContractCallModeCalldata then
           Inr (Calldata web3Url, None)
         else Inr ([], Some (PlainError ''ContractCallMode is empty'')))
      in case prepared of
           Inl e \<Rightarrow> ([], [], Some e)
         | Inr (calldata, err) \<Rightarrow>
             (let callMessage = callMessageFor web3Url calldata;
                  endpoint = RPC (chainConfigAt cfg (ChainId web3Url))
              in case Dial eth endpoint of
                   Inl e \<Rightarrow> ([Dialed endpoint], [], Some (Web3Error StatusBadRequest e))
                 | Inr ethClient \<Rightarrow>
                     (case CallContract eth ethClient callMessage of
                        (contractReturn, Some e) \<Rightarrow>
                          ([Dialed endpoint, Called callMessage, Closed], contractReturn,
                           Some (Web3Error StatusNotFound e))
                      | (contractReturn, None) \<Rightarrow>
                          if length contractReturn = 0 then
                            ([Dialed endpoint, Called callMessage, Closed], contractReturn,
                             Some (Web3Error StatusNotFound emptyReturnMessage))
                          else
                            ([Dialed endpoint, Called callMessage, Closed], contractReturn,
                             None))))"

text \<open>\<open>strings.Join\<close>, the spec's \<open>join\<close>; used to state what the signature loop builds.\<close>

fun Join :: "string list \<Rightarrow> string \<Rightarrow> string" where
  "Join [] sep = []"
| "Join [x] sep = x"
| "Join (x # y # ys) sep = x @ sep @ Join (y # ys) sep"

section \<open>Processing the contract return\<close>

record ('ty, 'v) FetchedWeb3URL =
  ParsedUrl :: "('ty, 'v) Web3URL option"
  ContractReturn :: bytes
  Output :: bytes
  HttpCode :: int
  HttpHeaders :: "string \<rightharpoonup> string"

text \<open>
  The loop that formats the unpacked values: \<open>unpackedValues[i]\<close> is read at the index of
  the argument, which panics when there are fewer values than arguments.
\<close>

fun formatValues ::
  "('ty, 'x) codec \<Rightarrow> 'ty list \<Rightarrow> 'x val list \<Rightarrow> (go_error + 'x val list) outcome" where
  "formatValues lib [] unpackedValues = Returns (Inr [])"
| "formatValues lib (arg # args) [] = Panics ''index out of range''"
| "formatValues lib (arg # args) (v # vs) =
     (case toJSON lib arg v of
        (_, Some err) \<Rightarrow> Returns (Inl err)
      | (formattedValue, None) \<Rightarrow>
          (case formatValues lib args vs of
             Returns (Inr formattedValues) \<Rightarrow> Returns (Inr (formattedValue # formattedValues))
           | other \<Rightarrow> other))"

definition ProcessContractReturn ::
  "('ty, 'x) codec \<Rightarrow> ('ty, 'x val) Web3URL \<Rightarrow> bytes
     \<Rightarrow> (('ty, 'x val) FetchedWeb3URL \<times> go_error option) outcome" where
  "ProcessContractReturn lib web3Url contractReturn =
     (let fetchedWeb3Url = \<lparr>ParsedUrl = None, ContractReturn = [], Output = [], HttpCode = 0,
            HttpHeaders = Map.empty\<rparr>
      in
      if ContractReturnProcessing web3Url = [] then
        Returns (fetchedWeb3Url, Some (PlainError ''Missing ContractReturnProcessing field''))
      else if ContractReturnProcessing web3Url = ContractReturnProcessingABIEncodedBytes then
        (let bytesType = fst (NewType lib ''bytes'')
         in case UnpackValues lib [bytesType] contractReturn of
              (_, Some e) \<Rightarrow>
                Returns (fetchedWeb3Url,
                  Some (Web3Error StatusBadRequest ''Unable to parse contract output''))
            | (unpackedValues, None) \<Rightarrow>
                (case unpackedValues of
                   VBytes b # _ \<Rightarrow>
                     Returns (fetchedWeb3Url\<lparr>Output := b, HttpCode := 200,
                       HttpHeaders :=
                         (if DecodedABIEncodedBytesMimeType web3Url \<noteq> []
                          then [''Content-Type'' \<mapsto> DecodedABIEncodedBytesMimeType web3Url]
                          else Map.empty)\<rparr>, None)
                 | _ # _ \<Rightarrow> Panics ''interface conversion''
                 | [] \<Rightarrow> Panics ''index out of range''))
      else if ContractReturnProcessing web3Url = ContractReturnProcessingRawBytesJsonEncoded then
        (case MarshalStrings lib [''0x'' @ Bytes2Hex contractReturn] of
           (_, Some e) \<Rightarrow> Returns (fetchedWeb3Url, Some (PlainError e))
         | (jsonEncodedOutput, None) \<Rightarrow>
             Returns (fetchedWeb3Url\<lparr>Output := jsonEncodedOutput, HttpCode := 200,
               HttpHeaders := [''Content-Type'' \<mapsto> ''application/json'']\<rparr>, None))
      else if ContractReturnProcessing web3Url = ContractReturnProcessingJsonEncodeValues then
        (case UnpackValues lib (JsonEncodedValueTypes web3Url) contractReturn of
           (_, Some e) \<Rightarrow>
             Returns (fetchedWeb3Url,
               Some (Web3Error StatusBadRequest ''Unable to parse contract output''))
         | (unpackedValues, None) \<Rightarrow>
             (case formatValues lib (JsonEncodedValueTypes web3Url) unpackedValues of
                Panics p \<Rightarrow> Panics p
              | Returns (Inl err) \<Rightarrow> Returns (fetchedWeb3Url, Some err)
              | Returns (Inr formattedValues) \<Rightarrow>
                  (case MarshalValues lib formattedValues of
                     (_, Some e) \<Rightarrow> Returns (fetchedWeb3Url, Some (PlainError e))
                   | (jsonEncodedOutput, None) \<Rightarrow>
                       Returns (fetchedWeb3Url\<lparr>Output := jsonEncodedOutput, HttpCode := 200,
                         HttpHeaders := [''Content-Type'' \<mapsto> ''application/json'']\<rparr>, None))))
      else Returns (fetchedWeb3Url, None))"

section \<open>Strings\<close>

text \<open>\<open>strings.HasPrefix\<close>.\<close>

definition HasPrefix :: "string \<Rightarrow> string \<Rightarrow> bool" where
  "HasPrefix s pre = (length pre \<le> length s \<and> take (length pre) s = pre)"

text \<open>
  \<open>strings.Split\<close> for a separator of one character, which is all the code uses
  (\<open>"."\<close>, \<open>":"\<close> and \<open>","\<close>): the pieces between the separators, in order; the empty string
  gives one empty piece.
\<close>

fun Split :: "string \<Rightarrow> char \<Rightarrow> string list" where
  "Split [] sep = [[]]"
| "Split (c # s) sep =
     (if c = sep then [] # Split s sep
      else (c # hd (Split s sep)) # tl (Split s sep))"

text \<open>\<open>strings.Trim\<close>: drop the characters of the cutset from both ends.\<close>

definition Trim :: "string \<Rightarrow> string \<Rightarrow> string" where
  "Trim s cutset =
     rev (dropWhile (\<lambda>c. c \<in> set cutset) (rev (dropWhile (\<lambda>c. c \<in> set cutset) s)))"

section \<open>Name normalisation and hashing\<close>

text \<open>
  The IDNA profile \<open>p\<close> is a library value; its method \<open>ToUnicode\<close> is a parameter that
  returns the Go pair \<open>(string, error)\<close>.
\<close>

type_synonym profile = "string \<Rightarrow> string \<times> string option"

definition Normalize :: "profile \<Rightarrow> string \<Rightarrow> string \<times> string option" where
  "Normalize ToUnicode input =
     (case ToUnicode input of
        (output, Some err) \<Rightarrow> (output, Some err)
      | (output, None) \<Rightarrow>
          if HasPrefix input ''.'' \<and> \<not> HasPrefix output ''.'' then (''.'' @ output, None)
          else (output, None))"

text \<open>
  Hashes are \<open>[32]byte\<close> arrays, zero at first. The hash function is a parameter
  \<open>keccak\<close>; a Keccak-256 digest has 32 bytes, so \<open>sha.Sum(hash[:0])\<close> overwrites the whole
  array with the digest. Writing to the hash state never fails, so the errors of
  \<open>sha.Write\<close> do not occur.
\<close>

definition LabelHash :: "profile \<Rightarrow> (bytes \<Rightarrow> bytes) \<Rightarrow> string \<Rightarrow> bytes \<times> string option" where
  "LabelHash ToUnicode keccak label =
     (case Normalize ToUnicode label of
        (normalizedLabel, Some err) \<Rightarrow> (replicate 32 0, Some err)
      | (normalizedLabel, None) \<Rightarrow> (keccak (bytes_of normalizedLabel), None))"

definition nameHashPart :: "(bytes \<Rightarrow> bytes) \<Rightarrow> bytes \<Rightarrow> string \<Rightarrow> bytes" where
  "nameHashPart keccak currentHash name = keccak (currentHash @ keccak (bytes_of name))"

text \<open>
  The loop \<open>for i := len(parts) - 1; i >= 0; i--\<close>: the counter of the model is \<open>i + 1\<close>,
  so that it stops at 0.
\<close>

fun nameHashLoop :: "(bytes \<Rightarrow> bytes) \<Rightarrow> string list \<Rightarrow> nat \<Rightarrow> bytes \<Rightarrow> bytes" where
  "nameHashLoop keccak parts 0 hash = hash"
| "nameHashLoop keccak parts (Suc i) hash =
     nameHashLoop keccak parts i (nameHashPart keccak hash (parts ! i))"

definition NameHash :: "profile \<Rightarrow> (bytes \<Rightarrow> bytes) \<Rightarrow> string \<Rightarrow> bytes \<times> string option" where
  "NameHash ToUnicode keccak name =
     (if name = [] then (replicate 32 0, None)
      else case Normalize ToUnicode name of
             (normalizedName, Some err) \<Rightarrow> (replicate 32 0, Some err)
           | (normalizedName, None) \<Rightarrow>
               (let parts = Split normalizedName CHR ''.''
                in (nameHashLoop keccak parts (length parts) (replicate 32 0), None)))"

section \<open>Chain-specific addresses\<close>

text \<open>
  \<open>common.IsHexAddress\<close>, \<open>common.HexToAddress\<close> and \<open>strings.ToLower\<close> are library
  functions and parameters of the model.
\<close>

record hexlib =
  IsHexAddress :: "string \<Rightarrow> bool"
  HexToAddress :: "string \<Rightarrow> bytes"
  ToLower :: "string \<Rightarrow> string"

text \<open>
  In this file a chain identifier is a Go string and the value returned when there is no
  chain override is \<open>""\<close>, the zero value of the type. \<open>common.Address{}\<close> is 20 zero bytes.
\<close>

definition parseChainSpecificAddress ::
  "hexlib \<Rightarrow> string Config \<Rightarrow> string \<Rightarrow> bytes \<times> string \<times> go_error option" where
  "parseChainSpecificAddress hl cfg addr =
     (if IsHexAddress hl addr then (HexToAddress hl addr, [], None)
      else
        let ss = Split addr CHR '':'' in
        if length ss \<noteq> 2 then
          (replicate 20 0, [],
           Some (Web3Error StatusBadRequest (''invalid contract address from name service: '' @ addr)))
        else
          let chainName = ss ! 0 in
          case Name2Chain cfg (ToLower hl chainName) of
            None \<Rightarrow>
              (replicate 20 0, [],
               Some (Web3Error StatusBadRequest
                 (''unsupported chain short name from name service: '' @ addr)))
          | Some chainId \<Rightarrow>
              if \<not> IsHexAddress hl (ss ! 1) then
                (replicate 20 0, [],
                 Some (Web3Error StatusBadRequest
                   (''invalid contract address from name service: '' @ addr)))
              else (HexToAddress hl (ss ! 1), chainId, None))"

section \<open>Resolving a name to an address\<close>

definition EmptyString :: string where
  "EmptyString = replicate 62 CHR ''0'' @ ''20'' @ replicate 64 CHR ''0''"

definition EmptyAddress :: string where
  "EmptyAddress = replicate 64 CHR ''0''"

text \<open>The loop of \<open>parseOutput\<close> that builds the ABI types of the return values.\<close>

fun returnArgTypes :: "('ty, 'x) codec \<Rightarrow> string list \<Rightarrow> go_error + 'ty list" where
  "returnArgTypes lib [] = Inr []"
| "returnArgTypes lib (arg # returnArgs) =
     (case NewType lib arg of
        (_, Some err) \<Rightarrow> Inl (Web3Error StatusBadRequest err)
      | (ty, None) \<Rightarrow>
          (case returnArgTypes lib returnArgs of
             Inl e \<Rightarrow> Inl e
           | Inr argsArray \<Rightarrow> Inr (ty # argsArray)))"

text \<open>
  Its last loop, \<open>res[i], _ = toJSON(arg.Type, res[i])\<close>: every value at the index of an
  argument is replaced, and reading past the end of \<open>res\<close> panics.
\<close>

fun toJSONEach :: "('ty, 'x) codec \<Rightarrow> 'ty list \<Rightarrow> 'x val list \<Rightarrow> 'x val list outcome" where
  "toJSONEach lib [] res = Returns res"
| "toJSONEach lib (arg # argsArray) [] = Panics ''index out of range''"
| "toJSONEach lib (arg # argsArray) (v # res) =
     (case toJSONEach lib argsArray res of
        Panics p \<Rightarrow> Panics p
      | Returns res' \<Rightarrow> Returns (fst (toJSON lib arg v) # res'))"

definition parseOutput ::
  "('ty, 'x) codec \<Rightarrow> bytes \<Rightarrow> string \<Rightarrow> (go_error + 'x val list) outcome" where
  "parseOutput lib output userTypes =
     (if userTypes = ''()'' then Returns (Inr [VString (''0x'' @ Bytes2Hex output)])
      else
        let returnTypes = (if userTypes \<noteq> [] then userTypes else ''(bytes)'');
            returnArgs = Split (Trim returnTypes ''()'') CHR '',''
        in case returnArgTypes lib returnArgs of
             Inl e \<Rightarrow> Returns (Inl e)
           | Inr argsArray \<Rightarrow>
               (case UnpackValues lib argsArray output of
                  (_, Some err) \<Rightarrow> Returns (Inl (Web3Error StatusBadRequest err))
                | (res, None) \<Rightarrow>
                    if userTypes \<noteq> [] then
                      (case toJSONEach lib argsArray res of
                         Panics p \<Rightarrow> Panics p
                       | Returns res' \<Rightarrow> Returns (Inr res'))
                    else Returns (Inr res)))"

text \<open>
  \<open>parseArguments\<close> and \<open>handleCallContract\<close> belong to the repository but their source is
  not among the files at hand; they are parameters. In \<open>resolve\<close> the message of the 404 is
  \<open>err.Error()\<close>, a method call on the error of the contract call: when that error is nil
  (the call succeeded and returned the zero address) the call panics.
\<close>

type_synonym 'cid parseArguments = "'cid \<Rightarrow> bytes \<Rightarrow> string list \<Rightarrow> go_error + CallMsg"

definition resolve ::
  "hexlib \<Rightarrow> ('ty, 'x) codec \<Rightarrow> string parseArguments \<Rightarrow> 'c rpc \<Rightarrow> string Config
     \<Rightarrow> 'c \<Rightarrow> string \<Rightarrow> bytes \<Rightarrow> string list
     \<Rightarrow> (bytes \<times> string \<times> go_error option) outcome" where
  "resolve hl lib parseArguments eth cfg ethClient nameServiceChain resolver args =
     (case parseArguments nameServiceChain resolver args of
        Inl e \<Rightarrow> Returns (replicate 20 0, [], Some e)
      | Inr msg \<Rightarrow>
          (case CallContract eth ethClient msg of
             (bs, err) \<Rightarrow>
               if err \<noteq> None \<or> Bytes2Hex bs = EmptyAddress then
                 (case err of
                    None \<Rightarrow> Panics ''nil pointer dereference''
                  | Some e \<Rightarrow> Returns (replicate 20 0, [], Some (Web3Error StatusNotFound e)))
               else
                 (case parseOutput lib bs ''address'' of
                    Panics p \<Rightarrow> Panics p
                  | Returns (Inl e) \<Rightarrow> Returns (replicate 20 0, [], Some e)
                  | Returns (Inr res) \<Rightarrow>
                      (case res of
                         [] \<Rightarrow> Panics ''index out of range''
                       | VString s # _ \<Rightarrow> Returns (parseChainSpecificAddress hl cfg s)
                       | _ # _ \<Rightarrow> Panics ''interface conversion''))))"

text \<open>
  \<open>common.BytesToHash\<close> and \<open>common.BytesToAddress\<close> keep the last 32 (20) bytes of a
  longer slice and pad a shorter one with zeros on the left; \<open>Hash.Hex\<close> is the
  \<open>0x\<close>-prefixed hex encoding.
\<close>

definition leftPadOrCrop :: "nat \<Rightarrow> bytes \<Rightarrow> bytes" where
  "leftPadOrCrop n b =
     (if n < length b then drop (length b - n) b else replicate (n - length b) 0 @ b)"

definition BytesToHash :: "bytes \<Rightarrow> bytes" where
  "BytesToHash b = leftPadOrCrop 32 b"

definition BytesToAddress :: "bytes \<Rightarrow> bytes" where
  "BytesToAddress b = leftPadOrCrop 20 b"

definition Hex :: "bytes \<Rightarrow> string" where
  "Hex h = ''0x'' @ Bytes2Hex h"

definition getConfigs ::
  "string Config \<Rightarrow> string \<Rightarrow> string \<Rightarrow> go_error + NameServiceInfo \<times> string" where
  "getConfigs cfg nameServiceChain nameWithSuffix =
     (let ss = Split nameWithSuffix CHR ''.'' in
      if length ss \<le> 1 then
        Inl (Web3Error StatusBadRequest (''invalid domain name: '' @ nameWithSuffix))
      else
        let suffix = ss ! (length ss - 1) in
        case ChainConfigs cfg nameServiceChain of
          None \<Rightarrow> Inl (Web3Error StatusBadRequest (''unsupported chain: '' @ nameServiceChain))
        | Some chainInfo \<Rightarrow>
            (case NSConfig chainInfo suffix of
               None \<Rightarrow> Inl (Web3Error StatusBadRequest (''unsupported suffix: '' @ suffix))
             | Some nsInfo \<Rightarrow> Inr (nsInfo, RPC chainInfo)))"

type_synonym 'c handleCallContract = "'c \<Rightarrow> CallMsg \<Rightarrow> go_error + bytes"

definition getResolver ::
  "string parseArguments \<Rightarrow> 'c handleCallContract \<Rightarrow> 'c \<Rightarrow> bytes \<Rightarrow> string \<Rightarrow> string
     \<Rightarrow> string \<Rightarrow> go_error + bytes" where
  "getResolver parseArguments handleCallContract ethClient nsAddr node nameServiceChain
       nameWithSuffix =
     (case parseArguments nameServiceChain nsAddr [''resolver'', ''bytes32!'' @ node] of
        Inl e \<Rightarrow> Inl e
      | Inr msg \<Rightarrow>
          (case handleCallContract ethClient msg of
             Inl e \<Rightarrow> Inl e
           | Inr bs \<Rightarrow>
               if Bytes2Hex bs = EmptyAddress then
                 Inl (Web3Error StatusBadRequest (''Cannot get resolver for '' @ nameWithSuffix))
               else Inr (BytesToAddress bs)))"

text \<open>
  The argument of the simple name service: \<open>nameWithSuffix[:len(nameWithSuffix)-4]\<close>
  panics on a name of fewer than four bytes.
\<close>

definition pointersArgs :: "string \<Rightarrow> string list outcome" where
  "pointersArgs nameWithSuffix =
     (if length nameWithSuffix < 4 then Panics ''slice bounds out of range''
      else Returns [''pointers'',
        ''bytes32!'' @ Hex (BytesToHash (RightPadBytes
           (bytes_of (take (length nameWithSuffix - 4) nameWithSuffix)) 32))])"

text \<open>
  The constants \<open>SimpleNameService\<close> and \<open>Web3QNameService\<close> are declared outside the files
  at hand and are parameters.
\<close>

definition getAddressFromNameService ::
  "hexlib \<Rightarrow> ('ty, 'x) codec \<Rightarrow> profile \<Rightarrow> (bytes \<Rightarrow> bytes) \<Rightarrow> string parseArguments
     \<Rightarrow> 'c handleCallContract \<Rightarrow> 'c rpc \<Rightarrow> string \<Rightarrow> string Config \<Rightarrow> string \<Rightarrow> string
     \<Rightarrow> (bytes \<times> string \<times> go_error option) outcome" where
  "getAddressFromNameService hl lib ToUnicode keccak parseArguments handleCallContract eth
       SimpleNameService cfg nameServiceChain nameWithSuffix =
     (if IsHexAddress hl nameWithSuffix then Returns (HexToAddress hl nameWithSuffix, [], None)
      else case getConfigs cfg nameServiceChain nameWithSuffix of
        Inl we \<Rightarrow> Returns (replicate 20 0, [], Some we)
      | Inr (nsInfo, rpc) \<Rightarrow>
          (case Dial eth rpc of
             Inl err \<Rightarrow>
               Returns (replicate 20 0, [],
                 Some (Web3Error StatusInternalServerError ''internal server error''))
           | Inr ethClient \<Rightarrow>
               if NSType nsInfo \<noteq> SimpleNameService then
                 (let nameHash = fst (NameHash ToUnicode keccak nameWithSuffix);
                      node = Hex (BytesToHash nameHash)
                  in case getResolver parseArguments handleCallContract ethClient
                            (HexToAddress hl (NSAddr nsInfo)) node nameServiceChain
                            nameWithSuffix of
                       Inl e \<Rightarrow> Returns (replicate 20 0, [], Some e)
                     | Inr resolver \<Rightarrow>
                         resolve hl lib parseArguments eth cfg ethClient nameServiceChain
                           resolver [''addr'', ''bytes32!'' @ node])
               else
                 (case pointersArgs nameWithSuffix of
                    Panics p \<Rightarrow> Panics p
                  | Returns args \<Rightarrow>
                      resolve hl lib parseArguments eth cfg ethClient nameServiceChain
                        (HexToAddress hl (NSAddr nsInfo)) args)))"

definition getAddressFromNameServiceWebHandler ::
  "hexlib \<Rightarrow> ('ty, 'x) codec \<Rightarrow> profile \<Rightarrow> (bytes \<Rightarrow> bytes) \<Rightarrow> string parseArguments
     \<Rightarrow> 'c handleCallContract \<Rightarrow> 'c rpc \<Rightarrow> string \<Rightarrow> string \<Rightarrow> string Config \<Rightarrow> string
     \<Rightarrow> string \<Rightarrow> (bytes \<times> string \<times> go_error option) outcome" where
  "getAddressFromNameServiceWebHandler hl lib ToUnicode keccak parseArguments
       handleCallContract eth SimpleNameService Web3QNameService cfg nameServiceChain
       nameWithSuffix =
     (if IsHexAddress hl nameWithSuffix then Returns (HexToAddress hl nameWithSuffix, [], None)
      else case getConfigs cfg nameServiceChain nameWithSuffix of
        Inl we \<Rightarrow> Returns (replicate 20 0, [], Some we)
      | Inr (nsInfo, rpc) \<Rightarrow>
          (case Dial eth rpc of
             Inl err \<Rightarrow>
               Returns (replicate 20 0, [],
                 Some (Web3Error StatusInternalServerError ''internal server error''))
           | Inr ethClient \<Rightarrow>
               if NSType nsInfo \<noteq> SimpleNameService then
                 (let nameHash = fst (NameHash ToUnicode keccak nameWithSuffix);
                      node = Hex (BytesToHash nameHash)
                  in case getResolver parseArguments handleCallContract ethClient
                            (HexToAddress hl (NSAddr nsInfo)) node nameServiceChain
                            nameWithSuffix of
                       Inl e \<Rightarrow> Returns (replicate 20 0, [], Some e)
                     | Inr resolver \<Rightarrow>
                         (let (args, returnTp) =
                                (if NSType nsInfo = Web3QNameService
                                 then ([''webHandler'', ''bytes32!'' @ node], ''(address)'')
                                 else ([''text'', ''bytes32!'' @ node, ''string!contentcontract''],
                                       ''(string)''));
                              fallback =
                                resolve hl lib parseArguments eth cfg ethClient nameServiceChain
                                  resolver [''addr'', ''bytes32!'' @ node]
                          in case parseArguments nameServiceChain resolver args of
                               Inl e \<Rightarrow> Returns (replicate 20 0, [], Some e)
                             | Inr msg \<Rightarrow>
                                 (case handleCallContract ethClient msg of
                                    Inl we \<Rightarrow> Returns (replicate 20 0, [], Some we)
                                  | Inr bs \<Rightarrow>
                                      if Bytes2Hex bs \<noteq> EmptyString then
                                        (case parseOutput lib bs returnTp of
                                           Panics p \<Rightarrow> Panics p
                                         | Returns (Inl we) \<Rightarrow> fallback
                                         | Returns (Inr res) \<Rightarrow>
                                             (case res of
                                                [] \<Rightarrow> Panics ''index out of range''
                                              | VString s # _ \<Rightarrow>
                                                  Returns (parseChainSpecificAddress hl cfg s)
                                              | _ # _ \<Rightarrow> Panics ''interface conversion''))
                                      else fallback)))
               else
                 (case pointersArgs nameWithSuffix of
                    Panics p \<Rightarrow> Panics p
                  | Returns args \<Rightarrow>
                      resolve hl lib parseArguments eth cfg ethClient nameServiceChain
                        (HexToAddress hl (NSAddr nsInfo)) args)))"

section \<open>Sample inputs\<close>

text \<open>Concrete values on which the theorems below are instantiated.\<close>

definition sample_address :: bytes where
  "sample_address = replicate 19 0 @ [1]"

definition sample_msg :: CallMsg where
  "sample_msg = \<lparr>From = replicate 20 0, To = sample_address, Gas = 0, GasPrice = None,
     GasFeeCap = None, GasTipCap = None, Data = [], Value = None\<rparr>"

definition sample_config :: "int Config" where
  "sample_config = \<lparr>ChainConfigs = [1 \<mapsto> \<lparr>RPC = ''http://localhost:8545'', NSConfig = Map.empty\<rparr>],
     Name2Chain = Map.empty\<rparr>"

definition sample_url :: "(string, unit val) Web3URL" where
  "sample_url = \<lparr>Url = ''web3://0x0000000000000000000000000000000000000001/'',
     HostDomainNameResolver = [], HostDomainNameResolverChainId = 0,
     ContractAddress = sample_address, ChainId = 1, ResolveMode = ResolveModeAuto,
     ContractCallMode = ''method'', Calldata = [], MethodName = ''balanceOf'',
     MethodArgs = [''address'', ''uint256''],
     MethodArgValues = [VBytes sample_address, VString ''7''],
     ContractReturnProcessing = ''erc5219'', DecodedABIEncodedBytesMimeType = [],
     JsonEncodedValueTypes = []\<rparr>"

text \<open>A transport on which every dial succeeds and every call answers \<open>ret\<close>.\<close>

definition answering :: "bytes \<times> string option \<Rightarrow> unit rpc" where
  "answering ret = \<lparr>Dial = (\<lambda>_. Inr ()), CallContract = (\<lambda>_ _. ret)\<rparr>"

text \<open>A transport on which no dial succeeds.\<close>

definition unreachable :: "unit rpc" where
  "unreachable = \<lparr>Dial = (\<lambda>_. Inl ''dial failed''), CallContract = (\<lambda>_ _. ([], None))\<rparr>"

text \<open>
  A stand-in codec for the instantiations: a type is its name, the packing is the
  concatenation of the byte values, the hash is a fixed 32-byte pattern led by the length of
  its input. None of the theorems depends on what it computes.
\<close>

definition sample_codec :: "(string, unit) codec" where
  "sample_codec = \<lparr>
     NewType = (\<lambda>s. (s, None)),
     TypeString = (\<lambda>t. t),
     Pack = (\<lambda>ts vs. (concat (map (\<lambda>v. case v of VBytes b \<Rightarrow> b | VString s \<Rightarrow> bytes_of s | VOther _ \<Rightarrow> []) vs), None)),
     UnpackValues = (\<lambda>ts bs. (map (\<lambda>_. VBytes bs) ts, None)),
     Keccak256 = (\<lambda>bs. of_nat (length bs) # replicate 31 0),
     toJSON = (\<lambda>t v. (v, None)),
     MarshalStrings = (\<lambda>ss. (bytes_of (concat ss), None)),
     MarshalValues = (\<lambda>vs. ([], None))\<rparr>"

text \<open>
  Stand-ins for the instantiations. The profile drops every soft hyphen (U+00AD, the bytes
  \<open>C2 AD\<close> in UTF-8, a code point the IDNA mapping ignores) and leaves every other byte as
  it is, leading dots included; it reports no error. Then a hash, a 40-digit test for
  addresses, and a configuration of the name-service file.
\<close>

fun drop_soft_hyphens :: "string \<Rightarrow> string" where
  "drop_soft_hyphens (a # b # s) =
     (if a = CHR 0xC2 \<and> b = CHR 0xAD then drop_soft_hyphens s
      else a # drop_soft_hyphens (b # s))"
| "drop_soft_hyphens s = s"

definition sample_profile :: profile where
  "sample_profile s = (drop_soft_hyphens s, None)"

text \<open>The name \<open>.eth\<close> with a soft hyphen in front of it.\<close>

definition soft_hyphen_dot_eth :: string where
  "soft_hyphen_dot_eth = [CHR 0xC2, CHR 0xAD] @ ''.eth''"

definition sample_keccak :: "bytes \<Rightarrow> bytes" where
  "sample_keccak bs = of_nat (length bs) # replicate 31 0"

fun sample_hexval :: "char \<Rightarrow> nat" where
  "sample_hexval c =
     (let n = of_char c :: nat in
      if 48 \<le> n \<and> n \<le> 57 then n - 48
      else if 97 \<le> n \<and> n \<le> 102 then n - 87
      else if 65 \<le> n \<and> n \<le> 70 then n - 55
      else 0)"

fun sample_unhex :: "string \<Rightarrow> bytes" where
  "sample_unhex (a # b # s) = of_nat (16 * sample_hexval a + sample_hexval b) # sample_unhex s"
| "sample_unhex _ = []"

definition sample_hexlib :: hexlib where
  "sample_hexlib = \<lparr>
     IsHexAddress = (\<lambda>s. length s = 42 \<and> take 2 s = ''0x''
        \<and> list_all (\<lambda>c. c \<in> set ''0123456789abcdefABCDEF'') (drop 2 s)),
     HexToAddress = (\<lambda>s. sample_unhex (drop 2 s)),
     ToLower = (\<lambda>s. s)\<rparr>"

definition sample_ns_config :: "string Config" where
  "sample_ns_config = \<lparr>
     ChainConfigs = [''1'' \<mapsto> \<lparr>RPC = ''http://localhost:8545'',
       NSConfig = [''eth'' \<mapsto> \<lparr>NSType = ''ens'',
         NSAddr = ''0x00000000000000000000000000000000000000e5''\<rparr>]\<rparr>],
     Name2Chain = [''gno'' \<mapsto> ''100'']\<rparr>"

section \<open>Hexadecimal encoding is injective\<close>

lemma hextable_inj: "i < 16 \<Longrightarrow> j < 16 \<Longrightarrow> hextable ! i = hextable ! j \<Longrightarrow> i = j"
proof -
  have d: "distinct hextable" by (simp add: hextable_def)
  have l: "length hextable = 16" by (simp add: hextable_def)
  show "i < 16 \<Longrightarrow> j < 16 \<Longrightarrow> hextable ! i = hextable ! j \<Longrightarrow> i = j"
    using d l by (simp add: nth_eq_iff_index_eq)
qed

lemma hi_nibble: "unat (drop_bit 4 (v::byte)) = unat v div 16"
  by (simp add: drop_bit_eq_div unat_div)

lemma lo_nibble: "unat ((v::byte) AND 0x0f) = unat v mod 16"
proof -
  have "(v AND 0x0f) = take_bit 4 v" by (simp add: take_bit_eq_mask mask_eq_exp_minus_1)
  then show ?thesis by (simp add: take_bit_eq_mod unat_mod)
qed

lemma byte_less_256: "unat (v::byte) < 256"
  using unsigned_less [of v] by simp

lemma byte_nibbles_eqI:
  assumes "unat (v::byte) div 16 = unat w div 16" and "unat v mod 16 = unat w mod 16"
  shows "v = w"
proof -
  have "unat v = unat w" using assms by (metis div_mult_mod_eq)
  then show ?thesis by (rule word_unat_eq_iff [THEN iffD2])
qed

lemma Bytes2Hex_inj: "Bytes2Hex xs = Bytes2Hex ys \<Longrightarrow> xs = ys"
proof (induction xs arbitrary: ys)
  case Nil
  then show ?case by (cases ys) simp_all
next
  case (Cons v xs)
  then obtain w zs where ys: "ys = w # zs" by (cases ys) auto
  have hv: "unat v div 16 < 16" "unat w div 16 < 16"
    using byte_less_256 [of v] byte_less_256 [of w] by simp_all
  have lv: "unat v mod 16 < 16" "unat w mod 16 < 16" by simp_all
  from Cons.prems ys have
    h: "hextable ! (unat v div 16) = hextable ! (unat w div 16)" and
    l: "hextable ! (unat v mod 16) = hextable ! (unat w mod 16)" and
    r: "Bytes2Hex xs = Bytes2Hex zs"
    by (simp_all add: hi_nibble lo_nibble)
  have "v = w"
    using hextable_inj [OF hv h] hextable_inj [OF lv l] by (rule byte_nibbles_eqI)
  with Cons.IH [OF r] ys show ?case by simp
qed

lemma Bytes2Hex_manual:
  "Bytes2Hex (RightPadBytes (bytes_of ''manual'') 32) =
     ''6d616e75616c0000000000000000000000000000000000000000000000000000''"
  by code_simp

lemma Bytes2Hex_5219:
  "Bytes2Hex (RightPadBytes (bytes_of ''5219'') 32) =
     ''3532313900000000000000000000000000000000000000000000000000000000''"
  by code_simp

lemma length_padded_manual: "length (RightPadBytes (bytes_of ''manual'') 32) = 32"
  by (simp add: RightPadBytes_def bytes_of_def)

lemma length_padded_5219: "length (RightPadBytes (bytes_of ''5219'') 32) = 32"
  by (simp add: RightPadBytes_def bytes_of_def)

lemma is_manual_iff:
  "Bytes2Hex bs = ''6d616e75616c0000000000000000000000000000000000000000000000000000''
     \<longleftrightarrow> bs = RightPadBytes (bytes_of ''manual'') 32"
  using Bytes2Hex_inj [of bs "RightPadBytes (bytes_of ''manual'') 32"] Bytes2Hex_manual by auto

lemma is_5219_iff:
  "Bytes2Hex bs = ''3532313900000000000000000000000000000000000000000000000000000000''
     \<longleftrightarrow> bs = RightPadBytes (bytes_of ''5219'') 32"
  using Bytes2Hex_inj [of bs "RightPadBytes (bytes_of ''5219'') 32"] Bytes2Hex_5219 by auto

lemma padded_manual_neq_5219:
  "RightPadBytes (bytes_of ''manual'') 32 \<noteq> RightPadBytes (bytes_of ''5219'') 32"
  by (simp add: RightPadBytes_def bytes_of_def)

section \<open>Resolve-mode probe\<close>

lemma checkResolveMode_probed:
  assumes "parseArguments 0 (ContractAddress u) [''resolveMode''] = Inr msg"
    and "Dial eth (RPC (chainConfigAt cfg (ChainId u))) = Inr c"
  shows "checkResolveMode parseArguments eth cfg u =
     Returns (case CallContract eth c msg of
        (bs, Some e) \<Rightarrow> ResolveModeAuto
      | (bs, None) \<Rightarrow>
          if bs = RightPadBytes (bytes_of ''manual'') 32 then ResolveModeManual
          else if bs = RightPadBytes (bytes_of ''5219'') 32 then ResolveModeResourceRequests
          else ResolveModeAuto)"
  using assms length_padded_manual length_padded_5219
  by (auto simp add: checkResolveMode_def is_manual_iff is_5219_iff split: prod.splits option.splits)

text \<open>
  C1. Once the probe reaches the contract (the call message was built and the endpoint
  dialed), the mode is \<open>manual\<close> exactly when the call returns, without error, the 32 bytes
  of ASCII "manual" right-padded with zeros; \<open>resource-request\<close> exactly when it returns
  ASCII "5219" right-padded with zeros; and \<open>auto\<close> in every other case, in particular for
  every RPC error.
\<close>

theorem checkResolveMode_selects:
  assumes "parseArguments 0 (ContractAddress u) [''resolveMode''] = Inr msg"
    and "Dial eth (RPC (chainConfigAt cfg (ChainId u))) = Inr c"
  shows "(checkResolveMode parseArguments eth cfg u = Returns ResolveModeManual
            \<longleftrightarrow> CallContract eth c msg = (RightPadBytes (bytes_of ''manual'') 32, None))
       \<and> (checkResolveMode parseArguments eth cfg u = Returns ResolveModeResourceRequests
            \<longleftrightarrow> CallContract eth c msg = (RightPadBytes (bytes_of ''5219'') 32, None))
       \<and> (checkResolveMode parseArguments eth cfg u = Returns ResolveModeAuto
            \<longleftrightarrow> CallContract eth c msg \<noteq> (RightPadBytes (bytes_of ''manual'') 32, None)
              \<and> CallContract eth c msg \<noteq> (RightPadBytes (bytes_of ''5219'') 32, None))
       \<and> (snd (CallContract eth c msg) \<noteq> None
            \<longrightarrow> checkResolveMode parseArguments eth cfg u = Returns ResolveModeAuto)"
proof -
  note eq = checkResolveMode_probed [of parseArguments u msg eth cfg c, OF assms]
  show ?thesis
    unfolding eq using padded_manual_neq_5219
    by (auto split: prod.splits option.splits)
qed

theorem checkResolveMode_selects_witness:
  "checkResolveMode (\<lambda>_ _ _. Inr sample_msg)
      (answering (RightPadBytes (bytes_of ''manual'') 32, None)) sample_config sample_url
     = Returns ResolveModeManual
   \<and> checkResolveMode (\<lambda>_ _ _. Inr sample_msg)
      (answering (RightPadBytes (bytes_of ''5219'') 32, None)) sample_config sample_url
     = Returns ResolveModeResourceRequests
   \<and> checkResolveMode (\<lambda>_ _ _. Inr sample_msg)
      (answering ([], Some ''execution reverted'')) sample_config sample_url
     = Returns ResolveModeAuto"
  using checkResolveMode_selects [of "\<lambda>_ _ _. Inr sample_msg" sample_url sample_msg
      "answering (RightPadBytes (bytes_of ''manual'') 32, None)" sample_config "()"]
    checkResolveMode_selects [of "\<lambda>_ _ _. Inr sample_msg" sample_url sample_msg
      "answering (RightPadBytes (bytes_of ''5219'') 32, None)" sample_config "()"]
    checkResolveMode_selects [of "\<lambda>_ _ _. Inr sample_msg" sample_url sample_msg
      "answering ([], Some ''execution reverted'')" sample_config "()"]
  by (simp add: answering_def)

section \<open>Fetching the contract return\<close>

lemma appendArgTypes_Join:
  "n = i + length args \<Longrightarrow>
     appendArgTypes str n i args acc = acc @ Join (map str args) '',''"
proof (induction args arbitrary: i acc)
  case Nil
  then show ?case by simp
next
  case (Cons a rest)
  show ?case
  proof (cases rest)
    case Nil
    with Cons.prems show ?thesis by simp
  next
    case (Cons b rest')
    from Cons.prems Cons have "int i < int n - 1" by simp
    then have "appendArgTypes str n i (a # rest) acc
                 = appendArgTypes str n (Suc i) rest (acc @ str a @ '','')"
      by simp
    also have "\<dots> = (acc @ str a @ '','') @ Join (map str rest) '',''"
      using Cons.prems by (intro Cons.IH) simp
    also have "\<dots> = acc @ Join (map str (a # rest)) '',''"
      using Cons by simp
    finally show ?thesis .
  qed
qed

lemma methodSignatureOf_Join:
  "methodSignatureOf lib u =
     MethodName u @ ''('' @ Join (map (TypeString lib) (MethodArgs u)) '','' @ '')''"
  by (simp add: methodSignatureOf_def appendArgTypes_Join)

text \<open>
  C2. In method mode, when the arguments pack and the endpoint is dialed, exactly one call is
  made; it goes to the contract address and its data are the first 4 bytes of the hash of
  \<open>name(type1,type2,...)\<close>, the types joined by commas, followed by the packed arguments.
\<close>

theorem FetchContractReturn_method_calldata:
  assumes "ContractCallMode u = ''method''"
    and "Pack lib (MethodArgs u) (MethodArgValues u) = (packed, None)"
    and "Dial eth (RPC (chainConfigAt cfg (ChainId u))) = Inr c"
  shows "\<exists>m. fst (FetchContractReturn lib eth cfg u)
               = [Dialed (RPC (chainConfigAt cfg (ChainId u))), Called m, Closed]
           \<and> To m = ContractAddress u
           \<and> Data m =
               take 4 (Keccak256 lib (bytes_of
                 (MethodName u @ ''('' @ Join (map (TypeString lib) (MethodArgs u)) '','' @ '')'')))
               @ packed"
  using assms
  by (simp add: FetchContractReturn_def ContractCallModeMethod_def methodSignatureOf_Join
      callMessageFor_def Let_def split: prod.splits option.splits)

theorem FetchContractReturn_method_calldata_witness:
  "\<exists>m. fst (FetchContractReturn sample_codec (answering ([0x2a], None)) sample_config sample_url)
          = [Dialed ''http://localhost:8545'', Called m, Closed]
      \<and> To m = sample_address
      \<and> Data m = take 4 (Keccak256 sample_codec (bytes_of ''balanceOf(address,uint256)''))
                   @ sample_address @ bytes_of ''7''"
  using FetchContractReturn_method_calldata [of sample_url sample_codec
      "sample_address @ bytes_of ''7''" "answering ([0x2a], None)" sample_config "()"]
  by (simp add: sample_url_def sample_codec_def answering_def sample_config_def chainConfigAt_def)

text \<open>
  C4. A contract call made by \<open>FetchContractReturn\<close> that returns no error and zero bytes
  yields the 404 error with the message that explains an empty return.
\<close>

theorem FetchContractReturn_empty_return:
  assumes "FetchContractReturn lib eth cfg u = (tr, ret, err)"
    and "Dial eth (RPC (chainConfigAt cfg (ChainId u))) = Inr c"
    and "Called m \<in> set tr"
    and "CallContract eth c m = ([], None)"
  shows "ret = [] \<and> err = Some (Web3Error 404 emptyReturnMessage)"
  using assms
  by (auto simp add: FetchContractReturn_def StatusNotFound_def Let_def
      split: if_splits prod.splits option.splits sum.splits)

theorem FetchContractReturn_empty_return_witness:
  "FetchContractReturn sample_codec (answering ([], None)) sample_config sample_url
     = ([Dialed ''http://localhost:8545'',
         Called (callMessageFor sample_url
           (take 4 (Keccak256 sample_codec (bytes_of ''balanceOf(address,uint256)''))
              @ sample_address @ bytes_of ''7'')),
         Closed],
        [], Some (Web3Error 404 emptyReturnMessage))"
proof -
  let ?m = "callMessageFor sample_url
     (take 4 (Keccak256 sample_codec (bytes_of ''balanceOf(address,uint256)''))
        @ sample_address @ bytes_of ''7'')"
  let ?tr = "[Dialed ''http://localhost:8545'', Called ?m, Closed]"
  obtain ret err where
    r: "FetchContractReturn sample_codec (answering ([], None)) sample_config sample_url
          = (?tr, ret, err)"
    by (simp add: FetchContractReturn_def Let_def ContractCallModeMethod_def sample_url_def
        sample_codec_def answering_def sample_config_def chainConfigAt_def
        methodSignatureOf_def callMessageFor_def)
  have d: "Dial (answering ([], None)) (RPC (chainConfigAt sample_config (ChainId sample_url)))
             = Inr ()"
    by (simp add: answering_def)
  have c: "CallContract (answering ([], None)) () ?m = ([], None)"
    by (simp add: answering_def)
  have "Called ?m \<in> set ?tr" by simp
  from FetchContractReturn_empty_return [OF r d this c] r show ?thesis by simp
qed

lemma FetchContractReturn_no_mode_calls:
  assumes "ContractCallMode u \<noteq> ''method''" and "ContractCallMode u \<noteq> ''calldata''"
    and "Dial eth (RPC (chainConfigAt cfg (ChainId u))) = Inr c"
  shows "Called (callMessageFor u []) \<in> set (fst (FetchContractReturn lib eth cfg u))"
    and "snd (snd (FetchContractReturn lib eth cfg u)) \<noteq> Some (PlainError p)"
  using assms
  by (auto simp add: FetchContractReturn_def ContractCallModeMethod_def
      ContractCallModeCalldata_def Let_def split: prod.splits option.splits)

text \<open>
  C6. With an empty call mode the error set in the last branch is overwritten by the result
  of the dial: the call is made with empty data and its return is handed back with no error.
\<close>

theorem FetchContractReturn_empty_call_mode:
  "FetchContractReturn sample_codec (answering ([0x2a], None)) sample_config
       (sample_url\<lparr>ContractCallMode := []\<rparr>)
     = ([Dialed ''http://localhost:8545'',
         Called \<lparr>From = replicate 20 0, To = sample_address, Gas = 0, GasPrice = None,
           GasFeeCap = None, GasTipCap = None, Data = [], Value = None\<rparr>,
         Closed],
        [0x2a], None)"
  by (simp add: FetchContractReturn_def Let_def ContractCallModeMethod_def
      ContractCallModeCalldata_def sample_url_def answering_def sample_config_def
      chainConfigAt_def callMessageFor_def)

lemma FetchContractReturn_dial_failure_400:
  assumes "Dial eth (RPC (chainConfigAt cfg (ChainId u))) = Inl e"
    and "ContractCallMode u = ''method'' \<Longrightarrow> snd (Pack lib (MethodArgs u) (MethodArgValues u)) = None"
  shows "FetchContractReturn lib eth cfg u
           = ([Dialed (RPC (chainConfigAt cfg (ChainId u)))], [], Some (Web3Error 400 e))"
  using assms
  by (auto simp add: FetchContractReturn_def ContractCallModeMethod_def StatusBadRequest_def
      Let_def split: prod.splits option.splits)

text \<open>
  C7. When the dial fails in \<open>FetchContractReturn\<close>, the error carries the status 400 and
  the transport's message, not 500.
\<close>

theorem FetchContractReturn_dial_failure:
  "FetchContractReturn sample_codec unreachable sample_config sample_url
     = ([Dialed ''http://localhost:8545''], [], Some (Web3Error 400 ''dial failed''))"
  by (simp add: FetchContractReturn_def Let_def ContractCallModeMethod_def sample_url_def
      sample_codec_def unreachable_def sample_config_def chainConfigAt_def StatusBadRequest_def)

section \<open>Processing the contract return\<close>

text \<open>
  C10. With the return processing \<open>erc5219\<close>, whatever the contract returned, the result is
  the freshly initialised record (no output, status 0, no header) and no error.
\<close>

theorem ProcessContractReturn_erc5219:
  "ProcessContractReturn lib (u\<lparr>ContractReturnProcessing := ''erc5219''\<rparr>) contractReturn
     = Returns (\<lparr>ParsedUrl = None, ContractReturn = [], Output = [], HttpCode = 0,
                 HttpHeaders = Map.empty\<rparr>, None)"
  by (simp add: ProcessContractReturn_def ContractReturnProcessingABIEncodedBytes_def
      ContractReturnProcessingRawBytesJsonEncoded_def
      ContractReturnProcessingJsonEncodeValues_def)

section \<open>Splitting strings\<close>

lemma Split_not_Nil: "Split s sep \<noteq> []"
  by (cases s) simp_all

lemma Split_no_sep: "sep \<notin> set l \<Longrightarrow> Split l sep = [l]"
  by (induction l) auto

lemma Split_append: "sep \<notin> set l \<Longrightarrow> Split (l @ sep # r) sep = l # Split r sep"
  by (induction l) auto

lemma Split_parts_free: "p \<in> set (Split s sep) \<Longrightarrow> sep \<notin> set p"
proof (induction s arbitrary: p)
  case Nil
  then show ?case by simp
next
  case (Cons c s)
  obtain w ws where sp: "Split s sep = w # ws"
    using Split_not_Nil [of s sep] by (cases "Split s sep") auto
  show ?case
  proof (cases "c = sep")
    case True
    with Cons show ?thesis by auto
  next
    case False
    with Cons.prems sp have "p = c # w \<or> p \<in> set ws" by simp
    then show ?thesis
    proof
      assume "p = c # w"
      moreover have "sep \<notin> set w" using Cons.IH [of w] sp by simp
      ultimately show ?thesis using False by auto
    next
      assume "p \<in> set ws"
      then show ?thesis using Cons.IH [of p] sp by simp
    qed
  qed
qed

lemma Join_Split: "Join (Split s sep) [sep] = s"
proof (induction s)
  case Nil
  then show ?case by simp
next
  case (Cons c s)
  obtain w ws where sp: "Split s sep = w # ws"
    using Split_not_Nil [of s sep] by (cases "Split s sep") auto
  show ?case
  proof (cases "c = sep")
    case True
    with Cons sp show ?thesis by simp
  next
    case False
    with Cons sp show ?thesis by (cases ws) simp_all
  qed
qed

lemma Split_two_iff:
  "Split s sep = [l, r] \<longleftrightarrow> s = l @ sep # r \<and> sep \<notin> set l \<and> sep \<notin> set r"
proof
  assume h: "Split s sep = [l, r]"
  have "s = l @ sep # r" using Join_Split [of s sep] h by simp
  moreover have "sep \<notin> set l" "sep \<notin> set r"
    using Split_parts_free [of l s sep] Split_parts_free [of r s sep] h by simp_all
  ultimately show "s = l @ sep # r \<and> sep \<notin> set l \<and> sep \<notin> set r" by simp
next
  assume "s = l @ sep # r \<and> sep \<notin> set l \<and> sep \<notin> set r"
  then show "Split s sep = [l, r]" by (simp add: Split_append Split_no_sep)
qed

section \<open>Name normalisation and hashing\<close>

lemma Normalize_success:
  "snd (ToUnicode x) = None \<Longrightarrow>
     Normalize ToUnicode x =
       (if HasPrefix x ''.'' \<and> \<not> HasPrefix (fst (ToUnicode x)) ''.''
        then ''.'' @ fst (ToUnicode x) else fst (ToUnicode x), None)"
  by (cases "ToUnicode x") (simp add: Normalize_def)

lemma Normalize_failure: "snd (ToUnicode x) \<noteq> None \<Longrightarrow> Normalize ToUnicode x = ToUnicode x"
  by (cases "ToUnicode x") (auto simp add: Normalize_def)

text \<open>
  C9. A leading dot of the input is kept whenever the profile reports no error. The
  converse does not hold: the output of \<open>Normalize\<close> begins with a dot exactly when the
  profile's own output does, or the profile reports no error and the input begins with a
  dot. The profile's output can begin with a dot that the input does not begin with, as
  when an ignored code point stands in front of the dot.
\<close>

theorem Normalize_leading_dot:
  "(snd (ToUnicode x) = None \<and> HasPrefix x ''.''
      \<longrightarrow> HasPrefix (fst (Normalize ToUnicode x)) ''.'')
   \<and> (HasPrefix (fst (Normalize ToUnicode x)) ''.''
        \<longleftrightarrow> HasPrefix (fst (ToUnicode x)) ''.''
            \<or> snd (ToUnicode x) = None \<and> HasPrefix x ''.'')"
proof (cases "snd (ToUnicode x) = None")
  case True
  then show ?thesis
    by (auto simp add: Normalize_success HasPrefix_def)
next
  case False
  then have "Normalize ToUnicode x = ToUnicode x" by (rule Normalize_failure)
  with False show ?thesis by auto
qed

theorem Normalize_leading_dot_witness:
  "snd (sample_profile ''.eth'') = None \<and> HasPrefix ''.eth'' ''.''
   \<and> HasPrefix (fst (Normalize sample_profile ''.eth'')) ''.''
   \<and> \<not> HasPrefix (fst (Normalize sample_profile ''a.eth'')) ''.''"
proof -
  have ok: "snd (sample_profile ''.eth'') = None" "snd (sample_profile ''a.eth'') = None"
    by (simp_all add: sample_profile_def)
  have dot: "HasPrefix ''.eth'' ''.''" "\<not> HasPrefix ''a.eth'' ''.''"
    by (simp_all add: HasPrefix_def)
  have own: "\<not> HasPrefix (fst (sample_profile ''a.eth'')) ''.''"
    by (simp add: sample_profile_def HasPrefix_def)
  from Normalize_leading_dot [of sample_profile "''.eth''"]
    Normalize_leading_dot [of sample_profile "''a.eth''"] ok dot own
  show ?thesis by blast
qed

text \<open>
  The input is a soft hyphen followed by \<open>.eth\<close>: it does not begin with a dot, the
  profile drops the soft hyphen, and the output \<open>.eth\<close> begins with one.
\<close>

theorem Normalize_leading_dot_counterexample:
  "Normalize sample_profile soft_hyphen_dot_eth = (''.eth'', None)
   \<and> \<not> (HasPrefix (fst (Normalize sample_profile soft_hyphen_dot_eth)) ''.''
          \<longleftrightarrow> HasPrefix soft_hyphen_dot_eth ''.'')"
proof -
  have p: "sample_profile soft_hyphen_dot_eth = (''.eth'', None)"
    by (simp add: sample_profile_def soft_hyphen_dot_eth_def)
  have i: "\<not> HasPrefix soft_hyphen_dot_eth ''.''"
    by (simp add: HasPrefix_def soft_hyphen_dot_eth_def)
  have n: "Normalize sample_profile soft_hyphen_dot_eth = (''.eth'', None)"
    using p i by (simp add: Normalize_def)
  have o: "HasPrefix ''.eth'' ''.''" by (simp add: HasPrefix_def)
  from n i o show ?thesis by simp
qed

lemma nameHashLoop_foldr:
  "n \<le> length parts \<Longrightarrow>
     nameHashLoop keccak parts n h
       = foldr (\<lambda>label h. keccak (h @ keccak (bytes_of label))) (take n parts) h"
proof (induction n arbitrary: h)
  case 0
  then show ?case by simp
next
  case (Suc i)
  then have "take (Suc i) parts = take i parts @ [parts ! i]"
    by (simp add: take_Suc_conv_app_nth)
  with Suc show ?case by (simp add: nameHashPart_def)
qed

lemma NameHash_normalized:
  assumes "name \<noteq> []" and "Normalize ToUnicode name = (n, None)"
  shows "NameHash ToUnicode keccak name
           = (foldr (\<lambda>label h. keccak (h @ keccak (bytes_of label)))
                (Split n CHR ''.'') (replicate 32 0), None)"
  using assms by (simp add: NameHash_def nameHashLoop_foldr Let_def)

text \<open>
  C3. The hash of the empty name is 32 zero bytes. For a non-empty name that normalises
  without error, the hash is the recursion over the dot-separated labels of the normalised
  name, from the rightmost to the leftmost, starting from 32 zero bytes and replacing the
  hash \<open>h\<close> by \<open>keccak (h || keccak label)\<close>. In particular, when the name \<open>a.rest\<close> with a
  non-empty \<open>rest\<close> normalises label by label (to the normal form of \<open>a\<close>, a dot, and the
  normal form of \<open>rest\<close>), its hash is \<open>keccak (namehash rest || keccak (normalize a))\<close>.
\<close>

theorem NameHash_recursion:
  "NameHash ToUnicode keccak [] = (replicate 32 0, None)
   \<and> (name \<noteq> [] \<and> Normalize ToUnicode name = (n, None) \<longrightarrow>
        NameHash ToUnicode keccak name
          = (foldr (\<lambda>label h. keccak (h @ keccak (bytes_of label)))
               (Split n CHR ''.'') (replicate 32 0), None))
   \<and> (rest \<noteq> [] \<and> Normalize ToUnicode a = (na, None) \<and> CHR ''.'' \<notin> set na
        \<and> Normalize ToUnicode rest = (nrest, None)
        \<and> Normalize ToUnicode (a @ ''.'' @ rest) = (na @ ''.'' @ nrest, None) \<longrightarrow>
        NameHash ToUnicode keccak (a @ ''.'' @ rest)
          = (keccak (fst (NameHash ToUnicode keccak rest) @ keccak (bytes_of na)), None))"
proof (intro conjI impI)
  show "NameHash ToUnicode keccak [] = (replicate 32 0, None)"
    by (simp add: NameHash_def)
next
  assume "name \<noteq> [] \<and> Normalize ToUnicode name = (n, None)"
  then show "NameHash ToUnicode keccak name
      = (foldr (\<lambda>label h. keccak (h @ keccak (bytes_of label)))
           (Split n CHR ''.'') (replicate 32 0), None)"
    by (simp add: NameHash_normalized)
next
  assume h: "rest \<noteq> [] \<and> Normalize ToUnicode a = (na, None) \<and> CHR ''.'' \<notin> set na
        \<and> Normalize ToUnicode rest = (nrest, None)
        \<and> Normalize ToUnicode (a @ ''.'' @ rest) = (na @ ''.'' @ nrest, None)"
  then have sp: "Split (na @ CHR ''.'' # nrest) CHR ''.'' = na # Split nrest CHR ''.''"
    using Split_append [of "CHR ''.''" na nrest] by simp
  from h have whole: "Normalize ToUnicode (a @ CHR ''.'' # rest) = (na @ CHR ''.'' # nrest, None)"
    by simp
  have "NameHash ToUnicode keccak (a @ CHR ''.'' # rest)
      = (foldr (\<lambda>label h. keccak (h @ keccak (bytes_of label)))
           (Split (na @ CHR ''.'' # nrest) CHR ''.'') (replicate 32 0), None)"
    using whole by (intro NameHash_normalized) simp_all
  moreover have "NameHash ToUnicode keccak rest
      = (foldr (\<lambda>label h. keccak (h @ keccak (bytes_of label)))
           (Split nrest CHR ''.'') (replicate 32 0), None)"
    using h by (intro NameHash_normalized) simp_all
  ultimately show "NameHash ToUnicode keccak (a @ ''.'' @ rest)
      = (keccak (fst (NameHash ToUnicode keccak rest) @ keccak (bytes_of na)), None)"
    by (simp add: sp)
qed

theorem NameHash_recursion_witness:
  "NameHash sample_profile sample_keccak ''ab.eth''
     = (foldr (\<lambda>label h. sample_keccak (h @ sample_keccak (bytes_of label)))
          [''ab'', ''eth''] (replicate 32 0), None)
   \<and> NameHash sample_profile sample_keccak ''ab.eth''
     = (sample_keccak (fst (NameHash sample_profile sample_keccak ''eth'')
          @ sample_keccak (bytes_of ''ab'')), None)"
proof -
  have n: "Normalize sample_profile ''ab.eth'' = (''ab.eth'', None)"
    "Normalize sample_profile ''ab'' = (''ab'', None)"
    "Normalize sample_profile ''eth'' = (''eth'', None)"
    by (simp_all add: Normalize_def sample_profile_def HasPrefix_def)
  have s: "Split ''ab.eth'' CHR ''.'' = [''ab'', ''eth'']" by simp
  have e: "NameHash sample_profile sample_keccak ''eth''
      = (sample_keccak (replicate 32 0 @ sample_keccak (bytes_of ''eth'')), None)"
    using n(3) by (simp add: NameHash_normalized)
  from NameHash_recursion [of sample_profile sample_keccak "''ab.eth''" "''ab.eth''"
      "''eth''" "''ab''" "''ab''" "''eth''"] n s e
  show ?thesis by simp
qed

section \<open>Chain-specific addresses\<close>

text \<open>
  C8. A literal hex address is returned as it is, with the empty chain (no override).
  Any other string is accepted exactly when it is \<open>l:r\<close> with no further colon, the
  lower-cased \<open>l\<close> is a key of \<open>Name2Chain\<close> and \<open>r\<close> is a hex address; the result is then
  the address of \<open>r\<close> with the chain of \<open>l\<close>. Every other string gives the zero address
  with a 400 error.
\<close>

theorem parseChainSpecificAddress_cases:
  "(IsHexAddress hl addr \<longrightarrow>
      parseChainSpecificAddress hl cfg addr = (HexToAddress hl addr, [], None))
   \<and> (\<not> IsHexAddress hl addr \<and> addr = l @ '':'' @ r \<and> CHR '':'' \<notin> set l \<and> CHR '':'' \<notin> set r
        \<and> Name2Chain cfg (ToLower hl l) = Some chainId \<and> IsHexAddress hl r \<longrightarrow>
      parseChainSpecificAddress hl cfg addr = (HexToAddress hl r, chainId, None))
   \<and> (\<not> IsHexAddress hl addr
        \<and> \<not> (\<exists>l r. addr = l @ '':'' @ r \<and> CHR '':'' \<notin> set l \<and> CHR '':'' \<notin> set r
                \<and> ToLower hl l \<in> dom (Name2Chain cfg) \<and> IsHexAddress hl r) \<longrightarrow>
      (\<exists>msg. parseChainSpecificAddress hl cfg addr
                = (replicate 20 0, [], Some (Web3Error 400 msg))))"
proof (intro conjI impI)
  assume "IsHexAddress hl addr"
  then show "parseChainSpecificAddress hl cfg addr = (HexToAddress hl addr, [], None)"
    by (simp add: parseChainSpecificAddress_def)
next
  assume h: "\<not> IsHexAddress hl addr \<and> addr = l @ '':'' @ r \<and> CHR '':'' \<notin> set l
      \<and> CHR '':'' \<notin> set r \<and> Name2Chain cfg (ToLower hl l) = Some chainId \<and> IsHexAddress hl r"
  then have sp: "Split addr CHR '':'' = [l, r]" by (simp add: Split_two_iff)
  from h have nh: "\<not> IsHexAddress hl addr" by blast
  from h have c: "Name2Chain cfg (ToLower hl l) = Some chainId" by blast
  from h have hr: "IsHexAddress hl r" by blast
  show "parseChainSpecificAddress hl cfg addr = (HexToAddress hl r, chainId, None)"
    by (simp add: parseChainSpecificAddress_def nh sp c hr)
next
  assume h: "\<not> IsHexAddress hl addr
      \<and> \<not> (\<exists>l r. addr = l @ '':'' @ r \<and> CHR '':'' \<notin> set l \<and> CHR '':'' \<notin> set r
              \<and> ToLower hl l \<in> dom (Name2Chain cfg) \<and> IsHexAddress hl r)"
  show "\<exists>msg. parseChainSpecificAddress hl cfg addr
                = (replicate 20 0, [], Some (Web3Error 400 msg))"
  proof (cases "length (Split addr CHR '':'') = 2")
    case False
    with h show ?thesis by (simp add: parseChainSpecificAddress_def StatusBadRequest_def)
  next
    case True
    then obtain l r where sp: "Split addr CHR '':'' = [l, r]"
      by (cases "Split addr CHR '':''"; cases "tl (Split addr CHR '':'')") auto
    then have "addr = l @ '':'' @ r \<and> CHR '':'' \<notin> set l \<and> CHR '':'' \<notin> set r"
      by (simp add: Split_two_iff)
    with h have alt: "Name2Chain cfg (ToLower hl l) = None \<or> \<not> IsHexAddress hl r" by blast
    from h have nh: "\<not> IsHexAddress hl addr" by blast
    show ?thesis
    proof (cases "Name2Chain cfg (ToLower hl l)")
      case None
      then show ?thesis
        by (simp add: parseChainSpecificAddress_def StatusBadRequest_def Let_def nh sp)
    next
      case (Some chainId)
      with alt have "\<not> IsHexAddress hl r" by simp
      with Some show ?thesis
        by (simp add: parseChainSpecificAddress_def StatusBadRequest_def Let_def nh sp)
    qed
  qed
qed

theorem parseChainSpecificAddress_cases_witness:
  "parseChainSpecificAddress sample_hexlib sample_ns_config
       ''0x00000000000000000000000000000000000000a2''
     = (replicate 19 0 @ [0xa2], [], None)
   \<and> parseChainSpecificAddress sample_hexlib sample_ns_config
       ''gno:0x00000000000000000000000000000000000000a2''
     = (replicate 19 0 @ [0xa2], ''100'', None)
   \<and> (\<exists>msg. parseChainSpecificAddress sample_hexlib sample_ns_config ''gno:a2:x''
         = (replicate 20 0, [], Some (Web3Error 400 msg)))"
proof -
  let ?a = "''0x00000000000000000000000000000000000000a2''"
  have hex: "IsHexAddress sample_hexlib ?a" by (simp add: sample_hexlib_def)
  have nohex: "\<not> IsHexAddress sample_hexlib (''gno:'' @ ?a)"
    "\<not> IsHexAddress sample_hexlib ''gno:a2:x''"
    by (simp_all add: sample_hexlib_def)
  have val: "HexToAddress sample_hexlib ?a = replicate 19 0 @ [0xa2]"
    by code_simp
  have bad: "\<not> (\<exists>l r. ''gno:a2:x'' = l @ '':'' @ r \<and> CHR '':'' \<notin> set l \<and> CHR '':'' \<notin> set r
      \<and> ToLower sample_hexlib l \<in> dom (Name2Chain sample_ns_config)
      \<and> IsHexAddress sample_hexlib r)"
  proof
    assume "\<exists>l r. ''gno:a2:x'' = l @ '':'' @ r \<and> CHR '':'' \<notin> set l \<and> CHR '':'' \<notin> set r
      \<and> ToLower sample_hexlib l \<in> dom (Name2Chain sample_ns_config)
      \<and> IsHexAddress sample_hexlib r"
    then obtain l r where "Split ''gno:a2:x'' CHR '':'' = [l, r]"
      using Split_two_iff [of "''gno:a2:x''" "CHR '':''"] by auto
    then show False by simp
  qed
  from parseChainSpecificAddress_cases [of sample_hexlib ?a sample_ns_config]
    parseChainSpecificAddress_cases [of sample_hexlib "''gno:'' @ ?a" sample_ns_config
      "''gno''" ?a "''100''"]
    parseChainSpecificAddress_cases [of sample_hexlib "''gno:a2:x''" sample_ns_config]
    hex nohex val bad
  show ?thesis by (simp add: sample_hexlib_def sample_ns_config_def)
qed

section \<open>Resolving a name to an address\<close>

lemma Bytes2Hex_zero32: "Bytes2Hex (replicate 32 0) = EmptyAddress"
  by code_simp

lemma EmptyAddress_iff: "Bytes2Hex bs = EmptyAddress \<longleftrightarrow> bs = replicate 32 0"
  using Bytes2Hex_inj [of bs "replicate 32 0"] Bytes2Hex_zero32 by auto

lemma resolve_rpc_failure:
  assumes "parseArguments nameServiceChain resolver args = Inr msg"
    and "CallContract eth ethClient msg = (bs, Some e)"
  shows "resolve hl lib parseArguments eth cfg ethClient nameServiceChain resolver args
           = Returns (replicate 20 0, [], Some (Web3Error 404 e))"
  using assms by (simp add: resolve_def StatusNotFound_def)

text \<open>
  C5. When the \<open>addr\<close> call succeeds and returns the all-zero address, \<open>resolve\<close> builds
  the 404 from \<open>err.Error()\<close> with a nil \<open>err\<close>: it panics and returns no error value.
\<close>

theorem resolve_zero_address_panics:
  assumes "parseArguments nameServiceChain resolver args = Inr msg"
    and "CallContract eth ethClient msg = (replicate 32 0, None)"
  shows "resolve hl lib parseArguments eth cfg ethClient nameServiceChain resolver args
           = Panics ''nil pointer dereference''"
  using assms by (simp add: resolve_def Bytes2Hex_zero32)

theorem resolve_zero_address_panics_witness:
  "resolve sample_hexlib sample_codec (\<lambda>_ _ _. Inr sample_msg)
       (answering (replicate 32 0, None)) sample_ns_config () ''1'' sample_address
       [''addr'', ''bytes32!0x00''] = Panics ''nil pointer dereference''"
  by (rule resolve_zero_address_panics [where msg = sample_msg]) (simp_all add: answering_def)

text \<open>
  The two dial sites of the name-service file answer a failed dial with the status 500.
\<close>

lemma getAddressFromNameService_dial_failure:
  assumes "\<not> IsHexAddress hl nameWithSuffix"
    and "getConfigs cfg nameServiceChain nameWithSuffix = Inr (nsInfo, endpoint)"
    and "Dial eth endpoint = Inl e"
  shows "getAddressFromNameService hl lib ToUnicode keccak parseArguments handleCallContract
           eth simple cfg nameServiceChain nameWithSuffix
         = Returns (replicate 20 0, [], Some (Web3Error 500 ''internal server error''))"
    and "getAddressFromNameServiceWebHandler hl lib ToUnicode keccak parseArguments
           handleCallContract eth simple web3q cfg nameServiceChain nameWithSuffix
         = Returns (replicate 20 0, [], Some (Web3Error 500 ''internal server error''))"
  using assms
  by (simp_all add: getAddressFromNameService_def getAddressFromNameServiceWebHandler_def
      StatusInternalServerError_def)

end
